theory Spec2Isabelle
  imports Complex_Main "HOL-Library.AList" "HOL-Library.Sublist"
begin

section \<open>Ripple: dependency graph, impact analysis and risk scoring\<close>

text \<open>
  A shallow embedding of the TypeScript sources \<^verbatim>\<open>core/graph.ts\<close>,
  \<^verbatim>\<open>analyzers/test-mapper.ts\<close>, \<^verbatim>\<open>analyzers/impact-calculator.ts\<close>,
  \<^verbatim>\<open>analyzers/risk-scorer.ts\<close> and the path-taking methods of \<^verbatim>\<open>index.ts\<close>.

  Conventions. A JavaScript \<^verbatim>\<open>Set<string>\<close> is a duplicate-free list in insertion
  order (iteration order is observable in the traversal). The node table
  \<^verbatim>\<open>Map<string, GraphNode>\<close> is an association list in insertion order; the two edge
  tables are only read by key, so they are partial maps. A JavaScript \<^verbatim>\<open>number\<close> that
  counts things is a \<open>nat\<close>; a score is a \<open>real\<close> (exact arithmetic, rounding error of
  doubles is not modelled). A thrown \<^verbatim>\<open>Error\<close> is the \<open>Inl\<close> of a sum type.
  Everything the sources obtain from the file system, from Node's \<^verbatim>\<open>path\<close> module,
  from \<^verbatim>\<open>minimatch\<close>, \<^verbatim>\<open>glob\<close> and from the language frontend is a field of the
  environment record \<open>env\<close>.
\<close>

subsection \<open>Data model (\<^verbatim>\<open>types.ts\<close>)\<close>

record file_location =
  loc_filePath :: string
  loc_line :: nat
  loc_column :: nat

datatype symbol_kind =
  Function | Class | Variable | Type | Interface | Enum | Method | Property

record symbol =
  sym_name :: string
  sym_kind :: symbol_kind
  sym_location :: file_location

record import_specifier =
  imported :: string
  local_name :: string
  spec_isDefault :: bool
  isNamespace :: bool

record import_info =
  source :: string
  specifiers :: "import_specifier list"
  imp_location :: file_location

record export_info =
  exp_name :: string
  exp_kind :: symbol_kind
  exp_location :: file_location
  exp_isDefault :: bool

record graph_node =
  node_filePath :: string
  node_symbols :: "symbol list"
  node_imports :: "import_info list"
  node_exports :: "export_info list"
  lastModified :: real

type_synonym edge_map = "string \<rightharpoonup> string list"

record dependency_graph =
  nodes :: "(string \<times> graph_node) list"
  edges :: edge_map
  reverseEdges :: edge_map

record risk_thresholds =
  th_low :: real
  th_medium :: real
  th_high :: real

record ripple_config =
  includePaths :: "string list"
  excludePaths :: "string list"
  testPatterns :: "string list"
  riskThresholds :: risk_thresholds
  criticalPathPatterns :: "string list"
  cacheEnabled :: bool
  cachePath :: string

text \<open>The collaborators outside the sources: file system, \<^verbatim>\<open>path\<close>, \<^verbatim>\<open>glob\<close>,
  \<^verbatim>\<open>minimatch\<close> and the parser (\<open>None\<close> when \<^verbatim>\<open>parseFile\<close> or
  \<^verbatim>\<open>toGraphNode\<close> throws).\<close>

record env =
  rootDir :: string
  config :: ripple_config
  fs_existsSync :: "string \<Rightarrow> bool"
  fs_isFile :: "string \<Rightarrow> bool"
  path_resolve :: "string list \<Rightarrow> string"
  path_dirname :: "string \<Rightarrow> string"
  path_basename :: "string \<Rightarrow> string"
  path_join :: "string list \<Rightarrow> string"
  path_relative :: "string \<Rightarrow> string \<Rightarrow> string"
  path_parse_name :: "string \<Rightarrow> string"
  path_parse_dir :: "string \<Rightarrow> string"
  minimatch :: "string \<Rightarrow> string \<Rightarrow> bool"
  glob :: "string \<Rightarrow> string list \<Rightarrow> string list"
  parseFile :: "string \<Rightarrow> graph_node option"
  getContextSnippet :: "string \<Rightarrow> nat \<Rightarrow> string"

subsection \<open>JavaScript strings and sets\<close>

definition startsWith :: "string \<Rightarrow> string \<Rightarrow> bool" where
  "startsWith s p = prefix p s"

definition endsWith :: "string \<Rightarrow> string \<Rightarrow> bool" where
  "endsWith s p = suffix p s"

definition str_includes :: "string \<Rightarrow> string \<Rightarrow> bool" where
  "str_includes s p = sublist p s"

text \<open>\<^verbatim>\<open>s.slice(0, -n)\<close>\<close>

definition slice_end :: "string \<Rightarrow> nat \<Rightarrow> string" where
  "slice_end s n = take (length s - n) s"

text \<open>\<^verbatim>\<open>s.replace(/^p/, '')\<close> for a literal \<open>p\<close>, and \<^verbatim>\<open>s.replace(/(p1|p2|..)$/, '')\<close>
  for literal alternatives none of which is a suffix of another.\<close>

definition strip_prefix :: "string \<Rightarrow> string \<Rightarrow> string" where
  "strip_prefix p s = (if prefix p s then drop (length p) s else s)"

fun strip_suffixes :: "string list \<Rightarrow> string \<Rightarrow> string" where
  "strip_suffixes [] s = s"
| "strip_suffixes (p # ps) s =
     (if suffix p s then take (length s - length p) s else strip_suffixes ps s)"

text \<open>\<^verbatim>\<open>Set.prototype.add\<close> and \<^verbatim>\<open>Set.prototype.delete\<close> on insertion-ordered sets;
  \<^verbatim>\<open>[...new Set(xs)]\<close> keeps first occurrences.\<close>

text \<open>\<^verbatim>\<open>m.get(k) || []\<close>\<close>

fun or_empty :: "'a list option \<Rightarrow> 'a list" where
  "or_empty None = []"
| "or_empty (Some s) = s"

definition set_add :: "'a \<Rightarrow> 'a list \<Rightarrow> 'a list" where
  "set_add x xs = (if x \<in> set xs then xs else xs @ [x])"

definition set_delete :: "'a \<Rightarrow> 'a list \<Rightarrow> 'a list" where
  "set_delete x xs = filter (\<lambda>y. y \<noteq> x) xs"

fun dedupe :: "'a list \<Rightarrow> 'a list \<Rightarrow> 'a list" where
  "dedupe seen [] = []"
| "dedupe seen (x # xs) = (if x \<in> set seen then dedupe seen xs else x # dedupe (seen @ [x]) xs)"

definition unique :: "'a list \<Rightarrow> 'a list" where
  "unique xs = dedupe [] xs"

subsection \<open>Graph engine (\<^verbatim>\<open>core/graph.ts\<close>)\<close>

definition possibleExtensions :: "string list" where
  "possibleExtensions = [''.ts'', ''.tsx'', ''.js'', ''.jsx'', '''']"

definition resolveImport :: "env \<Rightarrow> string \<Rightarrow> string \<Rightarrow> string option" where
  "resolveImport e importSource fromFile =
     (let fromDir = path_dirname e fromFile;
          relative =
            (if startsWith importSource ''.'' then
               (let baseImport =
                      (if endsWith importSource ''.js'' then slice_end importSource 3
                       else if endsWith importSource ''.jsx'' then slice_end importSource 4
                       else importSource);
                    possiblePaths = [baseImport, baseImport @ ''/index''];
                    candidates = concat (map (\<lambda>basePath.
                        map (\<lambda>ext. path_resolve e [fromDir, basePath @ ext]) possibleExtensions)
                      possiblePaths)
                in find (\<lambda>fullPath. fs_existsSync e fullPath \<and> fs_isFile e fullPath) candidates)
             else None)
      in case relative of
           Some fullPath \<Rightarrow> Some fullPath
         | None \<Rightarrow>
            (let srcPath = path_resolve e [rootDir e, ''src'', importSource]
             in case find (fs_existsSync e) (map (\<lambda>ext. srcPath @ ext) possibleExtensions) of
                  Some fullPath \<Rightarrow> Some fullPath
                | None \<Rightarrow>
                    find (fs_existsSync e)
                      (map (\<lambda>ext. path_resolve e [srcPath, ''index'' @ ext]) possibleExtensions)))"

definition has_node :: "dependency_graph \<Rightarrow> string \<Rightarrow> bool" where
  "has_node g p = (map_of (nodes g) p \<noteq> None)"

definition getNode :: "dependency_graph \<Rightarrow> string \<Rightarrow> graph_node option" where
  "getNode g p = map_of (nodes g) p"

text \<open>\<^verbatim>\<open>if (!m.has(k)) m.set(k, new Set()); m.get(k).add(v)\<close>\<close>

definition add_to :: "edge_map \<Rightarrow> string \<Rightarrow> string \<Rightarrow> edge_map" where
  "add_to m k v = m(k \<mapsto> set_add v (or_empty (m k)))"

text \<open>One iteration of the inner loop of \<^verbatim>\<open>buildEdges\<close>. The test
  \<^verbatim>\<open>resolvedPath && ...\<close> is false for \<^verbatim>\<open>null\<close> and for the empty string.\<close>

definition add_import_edge :: "env \<Rightarrow> string \<Rightarrow> import_info \<Rightarrow> dependency_graph \<Rightarrow> dependency_graph" where
  "add_import_edge e filePath importInfo g =
     (case resolveImport e (source importInfo) filePath of
        None \<Rightarrow> g
      | Some resolvedPath \<Rightarrow>
          if resolvedPath \<noteq> [] \<and> has_node g resolvedPath
          then g\<lparr>edges := add_to (edges g) filePath resolvedPath,
                 reverseEdges := add_to (reverseEdges g) resolvedPath filePath\<rparr>
          else g)"

definition buildEdges :: "env \<Rightarrow> dependency_graph \<Rightarrow> dependency_graph" where
  "buildEdges e g =
     fold (\<lambda>(filePath, node) g'. fold (add_import_edge e filePath) (node_imports node) g')
       (nodes g) (g\<lparr>edges := Map.empty, reverseEdges := Map.empty\<rparr>)"

text \<open>\<^verbatim>\<open>m.get(k)?.delete(v)\<close>\<close>

definition delete_from :: "edge_map \<Rightarrow> string \<Rightarrow> string \<Rightarrow> edge_map" where
  "delete_from m k v = (case m k of None \<Rightarrow> m | Some s \<Rightarrow> m(k \<mapsto> set_delete v s))"

definition removeEdgesForFile :: "string \<Rightarrow> dependency_graph \<Rightarrow> dependency_graph" where
  "removeEdgesForFile filePath g =
     (let g1 = (case edges g filePath of
                  None \<Rightarrow> g
                | Some deps \<Rightarrow>
                    g\<lparr>reverseEdges := fold (\<lambda>dep m. delete_from m dep filePath) deps (reverseEdges g),
                      edges := (edges g)(filePath := None)\<rparr>)
      in case reverseEdges g1 filePath of
           None \<Rightarrow> g1
         | Some dependents \<Rightarrow>
             g1\<lparr>edges := fold (\<lambda>dependent m. delete_from m dependent filePath) dependents (edges g1),
                reverseEdges := (reverseEdges g1)(filePath := None)\<rparr>)"

text \<open>\<^verbatim>\<open>discoverFiles\<close>: one glob per include pattern, then deduplication.\<close>

definition discoverFiles :: "env \<Rightarrow> string list" where
  "discoverFiles e =
     unique (concat (map (\<lambda>pattern. glob e pattern (excludePaths (config e)))
                         (includePaths (config e))))"

text \<open>The body of the parsing loop of \<^verbatim>\<open>build\<close>: a file that fails to parse is skipped.\<close>

definition parse_into :: "env \<Rightarrow> string \<Rightarrow> dependency_graph \<Rightarrow> dependency_graph" where
  "parse_into e file g =
     (case parseFile e file of
        Some node \<Rightarrow> g\<lparr>nodes := AList.update file node (nodes g)\<rparr>
      | None \<Rightarrow> g)"

text \<open>\<^verbatim>\<open>build\<close>, on the graph the builder holds (empty after construction). Writing the
  cache file does not change the graph and is left out.\<close>

definition build :: "env \<Rightarrow> dependency_graph \<Rightarrow> dependency_graph" where
  "build e g = buildEdges e (fold (parse_into e) (discoverFiles e) g)"

definition empty_graph :: dependency_graph where
  "empty_graph = \<lparr>nodes = [], edges = Map.empty, reverseEdges = Map.empty\<rparr>"

text \<open>The body of the loop of \<^verbatim>\<open>updateIncremental\<close>: the file's edges are removed, then
  its node is replaced, or deleted when parsing throws.\<close>

definition update_file :: "env \<Rightarrow> string \<Rightarrow> dependency_graph \<Rightarrow> dependency_graph" where
  "update_file e file g =
     (let g1 = removeEdgesForFile file g
      in case parseFile e file of
           Some node \<Rightarrow> g1\<lparr>nodes := AList.update file node (nodes g1)\<rparr>
         | None \<Rightarrow> g1\<lparr>nodes := AList.delete file (nodes g1)\<rparr>)"

definition updateIncremental :: "env \<Rightarrow> string list \<Rightarrow> dependency_graph \<Rightarrow> dependency_graph" where
  "updateIncremental e changedFiles g = buildEdges e (fold (update_file e) changedFiles g)"

definition getDirectDependents :: "dependency_graph \<Rightarrow> string \<Rightarrow> string list" where
  "getDirectDependents g filePath =
     or_empty (reverseEdges g filePath)"

definition getDirectDependencies :: "dependency_graph \<Rightarrow> string \<Rightarrow> string list" where
  "getDirectDependencies g filePath =
     or_empty (edges g filePath)"

text \<open>The closure \<^verbatim>\<open>traverse\<close> of \<^verbatim>\<open>getTransitiveDependents\<close>; the state is the pair
  of the \<^verbatim>\<open>visited\<close> set and the \<^verbatim>\<open>result\<close> array. The hop bound is a count, hence a
  \<open>nat\<close>.\<close>

function traverse :: "edge_map \<Rightarrow> nat \<Rightarrow> string \<Rightarrow> nat \<Rightarrow> string set \<times> string list
    \<Rightarrow> string set \<times> string list" where
  "traverse adj maxDepth current depth (visited, result) =
     (if depth > maxDepth \<or> current \<in> visited then (visited, result)
      else
        (case adj current of
           None \<Rightarrow> (insert current visited, result)
         | Some dependents \<Rightarrow>
             fold (\<lambda>dep st.
                     if dep \<notin> fst st
                     then traverse adj maxDepth dep (depth + 1) (fst st, snd st @ [dep])
                     else st)
               dependents (insert current visited, result)))"
  by pat_completeness auto
termination
  by (relation "measure (\<lambda>(adj, maxDepth, current, depth, st). Suc maxDepth - depth)") auto

declare traverse.simps [simp del]

definition getTransitiveDependents :: "dependency_graph \<Rightarrow> string \<Rightarrow> nat \<Rightarrow> string list" where
  "getTransitiveDependents g filePath maxDepth =
     snd (traverse (reverseEdges g) maxDepth filePath 0 ({}, []))"

definition getTransitiveDependencies :: "dependency_graph \<Rightarrow> string \<Rightarrow> nat \<Rightarrow> string list" where
  "getTransitiveDependencies g filePath maxDepth =
     snd (traverse (edges g) maxDepth filePath 0 ({}, []))"

subsection \<open>JavaScript numbers\<close>

text \<open>\<^verbatim>\<open>Math.round\<close>: the nearest integer, halves rounded upwards.\<close>

definition js_round :: "real \<Rightarrow> int" where
  "js_round x = \<lfloor>x + 1 / 2\<rfloor>"

text \<open>A quotient that is a finite number: \<^verbatim>\<open>x / 0\<close> is \<^verbatim>\<open>NaN\<close> or an infinity in
  JavaScript, which is \<open>None\<close> here.\<close>

definition js_div :: "real \<Rightarrow> real \<Rightarrow> real option" where
  "js_div x y = (if y = 0 then None else Some (x / y))"

text \<open>The decimal numeral a template literal prints for a count or a rounded number.\<close>

fun string_of_nat :: "nat \<Rightarrow> string" where
  "string_of_nat n =
     (if n < 10 then [''0123456789'' ! n]
      else string_of_nat (n div 10) @ [''0123456789'' ! (n mod 10)])"

declare string_of_nat.simps [simp del]

definition string_of_int :: "int \<Rightarrow> string" where
  "string_of_int i = (if i < 0 then ''-'' @ string_of_nat (nat (- i)) else string_of_nat (nat i))"

text \<open>\<^verbatim>\<open>Array.prototype.join\<close>\<close>

fun js_join :: "string \<Rightarrow> string list \<Rightarrow> string" where
  "js_join sep [] = ''''"
| "js_join sep [x] = x"
| "js_join sep (x # y # ys) = x @ sep @ js_join sep (y # ys)"

subsection \<open>Test mapper (\<^verbatim>\<open>analyzers/test-mapper.ts\<close>)\<close>

text \<open>One file's entry of the normalised coverage data: hit counts by line number, branch
  id and function name.\<close>

record raw_coverage =
  raw_lines :: "(string \<times> int) list"
  raw_branches :: "(string \<times> int) list"
  raw_functions :: "(string \<times> int) list"

record coverage_metric =
  m_total :: nat
  m_covered :: nat
  m_percentage :: real

record coverage_info =
  ci_lines :: coverage_metric
  ci_branches :: coverage_metric

record test_mapping =
  sourceFile :: string
  testFiles :: "string list"
  coverage :: "coverage_info option"

text \<open>The mapper's fields after \<^verbatim>\<open>initialize\<close>: the set of test files and the coverage
  data (\<open>None\<close> for \<^verbatim>\<open>null\<close>).\<close>

record test_mapper =
  tm_testFiles :: "string list"
  coverageData :: "(string \<rightharpoonup> raw_coverage) option"

definition discoverTestFiles :: "env \<Rightarrow> string list" where
  "discoverTestFiles e =
     fold (\<lambda>pattern acc. fold set_add (glob e pattern [''node_modules/**'']) acc)
       (testPatterns (config e)) []"

definition isTestFile :: "test_mapper \<Rightarrow> string \<Rightarrow> bool" where
  "isTestFile tm filePath = (filePath \<in> set (tm_testFiles tm))"

definition findByNamingConvention :: "env \<Rightarrow> test_mapper \<Rightarrow> string \<Rightarrow> string list" where
  "findByNamingConvention e tm srcFile =
     (let baseName = path_parse_name e srcFile;
          dir = path_parse_dir e srcFile;
          patterns = [baseName @ ''.test'', baseName @ ''.spec'', baseName @ ''-test'',
                      baseName @ ''_test''];
          extensions = [''.ts'', ''.tsx'', ''.js'', ''.jsx'']
      in concat (map (\<lambda>pattern. concat (map (\<lambda>ext.
           filter (\<lambda>p. p \<in> set (tm_testFiles tm))
             [path_join e [dir, pattern @ ext],
              path_join e [dir, ''__tests__'', pattern @ ext],
              path_join e [dir, ''tests'', pattern @ ext]]) extensions)) patterns))"

definition findByImportAnalysis :: "dependency_graph \<Rightarrow> test_mapper \<Rightarrow> string \<Rightarrow> string list" where
  "findByImportAnalysis g tm srcFile =
     filter (\<lambda>dep. dep \<in> set (tm_testFiles tm)) (getDirectDependents g srcFile)"

definition findColocatedTests :: "env \<Rightarrow> test_mapper \<Rightarrow> string \<Rightarrow> string list" where
  "findColocatedTests e tm srcFile =
     (let baseName = path_parse_name e srcFile;
          parentTestsDir = path_join e [path_dirname e (path_parse_dir e srcFile), ''__tests__'']
      in filter (\<lambda>testFile.
           startsWith testFile parentTestsDir \<and>
           strip_suffixes [''_test'', ''_spec'']
             (strip_suffixes [''-test'', ''-spec'']
               (strip_suffixes [''.test'', ''.spec''] (path_parse_name e testFile))) = baseName)
         (tm_testFiles tm))"

text \<open>The expression \<^verbatim>\<open>total > 0 ? (covered / total) * 100 : 0\<close>.\<close>

definition percentage_of :: "nat \<Rightarrow> nat \<Rightarrow> real option" where
  "percentage_of cov tot =
     (if tot > 0 then map_option (\<lambda>q. q * 100) (js_div (real cov) (real tot)) else Some 0)"

text \<open>\<^verbatim>\<open>calculateCoverageInfo\<close>. The result is \<open>None\<close> when one of the two percentages
  is not a finite number.\<close>

definition calculateCoverageInfo :: "raw_coverage \<Rightarrow> coverage_info option" where
  "calculateCoverageInfo d =
     (let lineEntries = map snd (raw_lines d);
          branchEntries = map snd (raw_branches d);
          linesTotal = length lineEntries;
          linesCovered = length (filter (\<lambda>v. v > 0) lineEntries);
          branchesTotal = length branchEntries;
          branchesCovered = length (filter (\<lambda>v. v > 0) branchEntries)
      in case percentage_of linesCovered linesTotal of
           None \<Rightarrow> None
         | Some lp \<Rightarrow>
            (case percentage_of branchesCovered branchesTotal of
               None \<Rightarrow> None
             | Some bp \<Rightarrow>
                 Some \<lparr>ci_lines = \<lparr>m_total = linesTotal, m_covered = linesCovered, m_percentage = lp\<rparr>,
                       ci_branches = \<lparr>m_total = branchesTotal, m_covered = branchesCovered,
                                      m_percentage = bp\<rparr>\<rparr>))"

definition getCoverageForFile :: "env \<Rightarrow> test_mapper \<Rightarrow> string \<Rightarrow> coverage_info option" where
  "getCoverageForFile e tm filePath =
     (case coverageData tm of
        None \<Rightarrow> None
      | Some cd \<Rightarrow>
          (case find (\<lambda>p. cd p \<noteq> None)
                  [filePath, path_relative e (rootDir e) filePath, path_resolve e [filePath]] of
             None \<Rightarrow> None
           | Some p \<Rightarrow> (case cd p of None \<Rightarrow> None | Some d \<Rightarrow> calculateCoverageInfo d)))"

definition getTestsForFile :: "env \<Rightarrow> dependency_graph \<Rightarrow> test_mapper \<Rightarrow> string \<Rightarrow> test_mapping" where
  "getTestsForFile e g tm file =
     \<lparr>sourceFile = file,
      testFiles = unique (findByNamingConvention e tm file @ findByImportAnalysis g tm file
                          @ findColocatedTests e tm file),
      coverage = getCoverageForFile e tm file\<rparr>"

subsection \<open>Risk scorer (\<^verbatim>\<open>analyzers/risk-scorer.ts\<close>)\<close>

record caller =
  c_location :: file_location
  c_symbol :: symbol
  c_context :: string
  c_isTestFile :: bool
  c_isCriticalPath :: bool

datatype risk_level = Low | Medium | High | Critical

record risk_factor =
  rf_name :: string
  rf_weight :: real
  rf_description :: string
  rf_value :: real

record risk_score =
  rs_value :: real
  rs_level :: risk_level
  rs_factors :: "risk_factor list"

record risk_input =
  in_directCallers :: "caller list"
  in_transitiveCallers :: "caller list"
  in_untestedCallers :: "caller list"
  in_affectedTests :: "test_mapping list"
  in_filePath :: string

record risk_weights =
  w_callerCount :: real
  w_untestedRatio :: real
  w_criticalPath :: real
  w_testCoverage :: real
  w_transitiveDepth :: real

definition DEFAULT_WEIGHTS :: risk_weights where
  "DEFAULT_WEIGHTS = \<lparr>w_callerCount = 25 / 100, w_untestedRatio = 30 / 100,
     w_criticalPath = 25 / 100, w_testCoverage = 15 / 100, w_transitiveDepth = 5 / 100\<rparr>"

definition calculateCallerFactor :: "risk_weights \<Rightarrow> risk_input \<Rightarrow> risk_factor" where
  "calculateCallerFactor ws input =
     (let nd = length (in_directCallers input);
          nt = length (in_transitiveCallers input);
          totalCallers = nd + nt;
          v = (if totalCallers = 0 then 0
               else if totalCallers \<le> 5 then 2 + (real totalCallers / 5) * 2
               else if totalCallers \<le> 15 then 4 + ((real totalCallers - 5) / 10) * 2
               else if totalCallers \<le> 30 then 6 + ((real totalCallers - 15) / 15) * 2
               else 8 + min 2 ((real totalCallers - 30) / 50))
      in \<lparr>rf_name = ''Caller Count'',
          rf_weight = w_callerCount ws,
          rf_description = string_of_nat totalCallers @ '' total callers ('' @ string_of_nat nd
            @ '' direct, '' @ string_of_nat nt @ '' transitive)'',
          rf_value = v\<rparr>)"

definition calculateUntestedFactor :: "risk_weights \<Rightarrow> risk_input \<Rightarrow> risk_factor" where
  "calculateUntestedFactor ws input =
     (let totalCallers = length (in_directCallers input) + length (in_transitiveCallers input);
          untestedCount = length (in_untestedCallers input)
      in if totalCallers = 0
         then \<lparr>rf_name = ''Untested Callers'', rf_weight = w_untestedRatio ws,
               rf_description = ''No callers to evaluate'', rf_value = 0\<rparr>
         else
           (let ratio = real untestedCount / real totalCallers
            in \<lparr>rf_name = ''Untested Callers'', rf_weight = w_untestedRatio ws,
                rf_description = string_of_nat untestedCount @ ''/'' @ string_of_nat totalCallers
                  @ '' callers lack test coverage ('' @ string_of_int (js_round (ratio * 100))
                  @ ''%)'',
                rf_value = ratio * 10\<rparr>))"

definition isInCriticalPath :: "env \<Rightarrow> string \<Rightarrow> bool" where
  "isInCriticalPath e filePath =
     list_ex (\<lambda>pattern. minimatch e filePath pattern) (criticalPathPatterns (config e))"

definition calculateCriticalPathFactor :: "env \<Rightarrow> risk_weights \<Rightarrow> risk_input \<Rightarrow> risk_factor" where
  "calculateCriticalPathFactor e ws input =
     (let allCallers = in_directCallers input @ in_transitiveCallers input;
          n = length (filter c_isCriticalPath allCallers);
          fileInCriticalPath = isInCriticalPath e (in_filePath input);
          v = (if fileInCriticalPath then 5 else 0) + (if n > 0 then min 5 (real n) else 0);
          criticalPaths = (if fileInCriticalPath then [''Target file in critical path''] else [])
            @ (if n > 0 then [string_of_nat n @ '' callers in critical paths''] else [])
      in \<lparr>rf_name = ''Critical Path'',
          rf_weight = w_criticalPath ws,
          rf_description = (if criticalPaths \<noteq> [] then js_join ''; '' criticalPaths
                            else ''No critical path involvement''),
          rf_value = v\<rparr>)"

definition calculateTestCoverageFactor :: "risk_weights \<Rightarrow> risk_input \<Rightarrow> risk_factor" where
  "calculateTestCoverageFactor ws input =
     (case find (\<lambda>t. sourceFile t = in_filePath input) (in_affectedTests input) of
        None \<Rightarrow>
          \<lparr>rf_name = ''Test Coverage'', rf_weight = w_testCoverage ws,
           rf_description = ''No test mapping found'', rf_value = 8\<rparr>
      | Some targetTests \<Rightarrow>
          if testFiles targetTests = []
          then \<lparr>rf_name = ''Test Coverage'', rf_weight = w_testCoverage ws,
                rf_description = ''No test files found for this file'', rf_value = 10\<rparr>
          else
            (case coverage targetTests of
               None \<Rightarrow>
                 \<lparr>rf_name = ''Test Coverage'', rf_weight = w_testCoverage ws,
                  rf_description = string_of_nat (length (testFiles targetTests))
                    @ '' test file(s) found (no coverage data)'',
                  rf_value = 3\<rparr>
             | Some cov \<Rightarrow>
                 (let avgCoverage =
                        (m_percentage (ci_lines cov) + m_percentage (ci_branches cov)) / 2
                  in \<lparr>rf_name = ''Test Coverage'', rf_weight = w_testCoverage ws,
                      rf_description = string_of_int (js_round (m_percentage (ci_lines cov)))
                        @ ''% line coverage, ''
                        @ string_of_int (js_round (m_percentage (ci_branches cov)))
                        @ ''% branch coverage'',
                      rf_value = 10 - avgCoverage / 10\<rparr>)))"

definition calculateTransitiveFactor :: "risk_weights \<Rightarrow> risk_input \<Rightarrow> risk_factor" where
  "calculateTransitiveFactor ws input =
     (let transitiveCount = length (in_transitiveCallers input);
          v = (if transitiveCount = 0 then 0
               else if transitiveCount \<le> 5 then 2
               else if transitiveCount \<le> 15 then 4
               else if transitiveCount \<le> 30 then 6
               else 8)
      in \<lparr>rf_name = ''Transitive Impact'',
          rf_weight = w_transitiveDepth ws,
          rf_description = string_of_nat transitiveCount @ '' transitive dependencies'',
          rf_value = v\<rparr>)"

definition determineRiskLevel :: "env \<Rightarrow> real \<Rightarrow> risk_level" where
  "determineRiskLevel e score =
     (if score \<ge> th_high (riskThresholds (config e)) then Critical
      else if score \<ge> th_medium (riskThresholds (config e)) then High
      else if score \<ge> th_low (riskThresholds (config e)) then Medium
      else Low)"

text \<open>The first half of \<^verbatim>\<open>calculateRisk\<close>: the five factors in the order they are pushed,
  the \<^verbatim>\<open>reduce\<close> over them, and the clamp.\<close>

definition riskFactors :: "env \<Rightarrow> risk_weights \<Rightarrow> risk_input \<Rightarrow> risk_factor list" where
  "riskFactors e ws input =
     [calculateCallerFactor ws input, calculateUntestedFactor ws input,
      calculateCriticalPathFactor e ws input, calculateTestCoverageFactor ws input,
      calculateTransitiveFactor ws input]"

definition weightedSum :: "env \<Rightarrow> risk_weights \<Rightarrow> risk_input \<Rightarrow> real" where
  "weightedSum e ws input =
     foldl (\<lambda>sum factor. sum + rf_value factor * rf_weight factor) 0 (riskFactors e ws input)"

definition normalizedValue :: "env \<Rightarrow> risk_weights \<Rightarrow> risk_input \<Rightarrow> real" where
  "normalizedValue e ws input = min 10 (max 0 (weightedSum e ws input))"

definition calculateRisk :: "env \<Rightarrow> risk_weights \<Rightarrow> risk_input \<Rightarrow> risk_score" where
  "calculateRisk e ws input =
     \<lparr>rs_value = real_of_int (js_round (normalizedValue e ws input * 10)) / 10,
      rs_level = determineRiskLevel e (normalizedValue e ws input),
      rs_factors = riskFactors e ws input\<rparr>"


subsection \<open>Impact calculator (\<^verbatim>\<open>analyzers/impact-calculator.ts\<close>)\<close>

datatype error =
    NotFound string
  | SymbolNotFound string string
  | NotInitialized

record impact_options =
  opt_includeTransitive :: "bool option"
  opt_maxDepth :: "nat option"

record impact_summary =
  sm_totalCallers :: nat
  sm_testedCallers :: int
  sm_untestedCallers :: nat
  sm_criticalPathCallers :: nat
  sm_filesAffected :: nat
  sm_recommendation :: string

record impact_analysis =
  target :: symbol
  directCallers :: "caller list"
  transitiveCallers :: "caller list"
  affectedTests :: "test_mapping list"
  untestedCallers :: "caller list"
  riskScore :: risk_score
  summary :: impact_summary

definition isCriticalPath :: "env \<Rightarrow> string \<Rightarrow> bool" where
  "isCriticalPath e filePath =
     (let relativePath = path_relative e (rootDir e) filePath
      in list_ex (\<lambda>pattern. minimatch e relativePath pattern \<or> minimatch e filePath pattern)
           (criticalPathPatterns (config e)))"

text \<open>The normalisation of an import's specifier string in \<^verbatim>\<open>pathsToCallers\<close>.\<close>

definition normalizeImportSource :: "string \<Rightarrow> string" where
  "normalizeImportSource s =
     (let importSource = strip_prefix ''../'' (strip_prefix ''./'' s)
      in if endsWith importSource ''.js'' then slice_end importSource 3
         else if endsWith importSource ''.jsx'' then slice_end importSource 4
         else importSource)"

text \<open>The condition of the \<^verbatim>\<open>if\<close> in \<^verbatim>\<open>pathsToCallers\<close>: the three heuristics.\<close>

definition matchesSourceFile :: "env \<Rightarrow> string \<Rightarrow> import_info \<Rightarrow> bool" where
  "matchesSourceFile e srcFile imp =
     (let importSource = normalizeImportSource (source imp);
          sourceBasename = strip_suffixes [''.ts'', ''.tsx'', ''.js'', ''.jsx'']
                             (path_basename e srcFile)
      in importSource = sourceBasename \<or>
         endsWith importSource (''/'' @ sourceBasename) \<or>
         str_includes srcFile importSource)"

text \<open>The Caller pushed for one matching import; \<^verbatim>\<open>symbolName || path.basename(sourceFile)\<close>
  takes the basename for \<^verbatim>\<open>undefined\<close> and for the empty string.\<close>

definition importCaller :: "env \<Rightarrow> test_mapper \<Rightarrow> string \<Rightarrow> string \<Rightarrow> string option
    \<Rightarrow> import_info \<Rightarrow> caller" where
  "importCaller e tm depPath srcFile symbolName imp =
     \<lparr>c_location = imp_location imp,
      c_symbol = \<lparr>sym_name = (case symbolName of
                                 None \<Rightarrow> path_basename e srcFile
                               | Some n \<Rightarrow> if n \<noteq> [] then n else path_basename e srcFile),
                  sym_kind = Variable,
                  sym_location = imp_location imp\<rparr>,
      c_context = getContextSnippet e depPath (loc_line (imp_location imp)),
      c_isTestFile = isTestFile tm depPath,
      c_isCriticalPath = isCriticalPath e depPath\<rparr>"

definition pathsToCallers :: "env \<Rightarrow> dependency_graph \<Rightarrow> test_mapper \<Rightarrow> string list \<Rightarrow> string
    \<Rightarrow> string option \<Rightarrow> caller list" where
  "pathsToCallers e g tm paths srcFile symbolName =
     concat (map (\<lambda>depPath.
       case getNode g depPath of
         None \<Rightarrow> []
       | Some node \<Rightarrow>
           map (importCaller e tm depPath srcFile symbolName)
             (filter (matchesSourceFile e srcFile) (node_imports node)))
       paths)"

definition generateSummary :: "caller list \<Rightarrow> caller list \<Rightarrow> caller list \<Rightarrow> risk_score
    \<Rightarrow> impact_summary" where
  "generateSummary direct transitive untested score =
     (let total = length direct + length transitive
      in \<lparr>sm_totalCallers = total,
          sm_testedCallers = int total - int (length untested),
          sm_untestedCallers = length untested,
          sm_criticalPathCallers = length (filter c_isCriticalPath (direct @ transitive)),
          sm_filesAffected =
            length (unique (map (\<lambda>c. loc_filePath (c_location c)) direct
                            @ map (\<lambda>c. loc_filePath (c_location c)) transitive)),
          sm_recommendation =
            (if rs_level score = Critical then
               ''HIGH RISK: This change affects critical paths and has low test coverage. Consider adding tests before proceeding.''
             else if rs_level score = High then
               ''CAUTION: This change has significant impact. Review all affected files carefully.''
             else if rs_level score = Medium then
               ''MODERATE RISK: Some callers lack test coverage. Consider reviewing the untested paths.''
             else
               ''LOW RISK: This change has limited impact and good test coverage. Safe to proceed.'')\<rparr>)"

definition includeTransitive_of :: "impact_options \<Rightarrow> bool" where
  "includeTransitive_of options = (case opt_includeTransitive options of None \<Rightarrow> True | Some b \<Rightarrow> b)"

definition maxDepth_of :: "impact_options \<Rightarrow> nat" where
  "maxDepth_of options = (case opt_maxDepth options of None \<Rightarrow> 10 | Some d \<Rightarrow> d)"

definition untested_of :: "env \<Rightarrow> dependency_graph \<Rightarrow> test_mapper \<Rightarrow> caller list \<Rightarrow> caller list" where
  "untested_of e g tm allCallers =
     filter (\<lambda>c. testFiles (getTestsForFile e g tm (loc_filePath (c_location c))) = []) allCallers"

text \<open>The object \<^verbatim>\<open>analyzeFileImpact\<close> passes to \<^verbatim>\<open>calculateRisk\<close>, computed by the
  statements between the node lookup and that call.\<close>

definition fileRiskInput :: "env \<Rightarrow> dependency_graph \<Rightarrow> test_mapper \<Rightarrow> string \<Rightarrow> impact_options
    \<Rightarrow> risk_input" where
  "fileRiskInput e g tm filePath options =
     (let directDependentPaths = getDirectDependents g filePath;
          direct = pathsToCallers e g tm directDependentPaths filePath None;
          transitive =
            (if includeTransitive_of options then
               (let transitivePaths = getTransitiveDependents g filePath (maxDepth_of options);
                    transitiveOnly = filter (\<lambda>p. p \<notin> set directDependentPaths) transitivePaths
                in pathsToCallers e g tm transitiveOnly filePath None)
             else []);
          testMapping = getTestsForFile e g tm filePath;
          tests = testMapping #
            filter (\<lambda>depTests. length (testFiles depTests) > 0)
              (map (getTestsForFile e g tm) directDependentPaths)
      in \<lparr>in_directCallers = direct,
          in_transitiveCallers = transitive,
          in_untestedCallers = untested_of e g tm (direct @ transitive),
          in_affectedTests = tests,
          in_filePath = filePath\<rparr>)"

text \<open>The tail shared by both analyses: score, summary and the returned object.\<close>

definition impactResult :: "env \<Rightarrow> symbol \<Rightarrow> risk_input \<Rightarrow> impact_analysis" where
  "impactResult e tgt input =
     (let score = calculateRisk e DEFAULT_WEIGHTS input
      in \<lparr>target = tgt,
          directCallers = in_directCallers input,
          transitiveCallers = in_transitiveCallers input,
          affectedTests = in_affectedTests input,
          untestedCallers = in_untestedCallers input,
          riskScore = score,
          summary = generateSummary (in_directCallers input) (in_transitiveCallers input)
                      (in_untestedCallers input) score\<rparr>)"

definition analyzeFileImpact :: "env \<Rightarrow> dependency_graph \<Rightarrow> test_mapper \<Rightarrow> string \<Rightarrow> impact_options
    \<Rightarrow> error + impact_analysis" where
  "analyzeFileImpact e g tm filePath options =
     (case getNode g filePath of
        None \<Rightarrow> Inl (NotFound filePath)
      | Some node \<Rightarrow>
          (let fileSymbol = \<lparr>sym_name = path_basename e filePath, sym_kind = Variable,
                 sym_location = \<lparr>loc_filePath = filePath, loc_line = 1, loc_column = 1\<rparr>\<rparr>
           in Inr (impactResult e fileSymbol (fileRiskInput e g tm filePath options))))"

text \<open>The filter of \<^verbatim>\<open>analyzeSymbolImpact\<close> on the direct dependents: some import of the
  dependent has a specifier naming the symbol or \<^verbatim>\<open>*\<close>.\<close>

definition importsSymbol :: "dependency_graph \<Rightarrow> string \<Rightarrow> string \<Rightarrow> bool" where
  "importsSymbol g symbolName depPath =
     (case getNode g depPath of
        None \<Rightarrow> False
      | Some depNode \<Rightarrow>
          list_ex (\<lambda>imp. list_ex (\<lambda>spec. imported spec = symbolName \<or> imported spec = ''*'')
                            (specifiers imp))
            (node_imports depNode))"

text \<open>The object \<^verbatim>\<open>analyzeSymbolImpact\<close> passes to \<^verbatim>\<open>calculateRisk\<close>.\<close>

definition symbolRiskInput :: "env \<Rightarrow> dependency_graph \<Rightarrow> test_mapper \<Rightarrow> graph_node \<Rightarrow> string
    \<Rightarrow> string \<Rightarrow> impact_options \<Rightarrow> risk_input" where
  "symbolRiskInput e g tm node symbolName filePath options =
     (let isExported = list_ex (\<lambda>ex. exp_name ex = symbolName) (node_exports node);
          directDependentPaths = getDirectDependents g filePath;
          importingFiles = filter (importsSymbol g symbolName) directDependentPaths;
          direct = (if isExported
                    then pathsToCallers e g tm importingFiles filePath (Some symbolName)
                    else []);
          transitive =
            (if isExported \<and> includeTransitive_of options then
               (let transitivePaths = getTransitiveDependents g filePath (maxDepth_of options);
                    transitiveOnly = filter (\<lambda>p. p \<notin> set importingFiles) transitivePaths
                in pathsToCallers e g tm transitiveOnly filePath (Some symbolName))
             else [])
      in \<lparr>in_directCallers = direct,
          in_transitiveCallers = transitive,
          in_untestedCallers = untested_of e g tm (direct @ transitive),
          in_affectedTests = [getTestsForFile e g tm filePath],
          in_filePath = filePath\<rparr>)"

definition analyzeSymbolImpact :: "env \<Rightarrow> dependency_graph \<Rightarrow> test_mapper \<Rightarrow> string \<Rightarrow> string
    \<Rightarrow> impact_options \<Rightarrow> error + impact_analysis" where
  "analyzeSymbolImpact e g tm symbolName filePath options =
     (case getNode g filePath of
        None \<Rightarrow> Inl (NotFound filePath)
      | Some node \<Rightarrow>
          (case find (\<lambda>s. sym_name s = symbolName) (node_symbols node) of
             None \<Rightarrow> Inl (SymbolNotFound symbolName filePath)
           | Some symb \<Rightarrow>
               Inr (impactResult e symb
                      (symbolRiskInput e g tm node symbolName filePath options))))"

text \<open>\<^verbatim>\<open>analyzeRenameImpact\<close>: the symbol analysis with default options, and the list of
  rename locations.\<close>

definition no_options :: impact_options where
  "no_options = \<lparr>opt_includeTransitive = None, opt_maxDepth = None\<rparr>"


record quick_risk =
  riskLevel :: string
  callerCount :: nat
  hasTests :: bool

definition quickRiskCheck :: "env \<Rightarrow> dependency_graph \<Rightarrow> test_mapper \<Rightarrow> string \<Rightarrow> quick_risk" where
  "quickRiskCheck e g tm filePath =
     (let directDependents = getDirectDependents g filePath;
          testMapping = getTestsForFile e g tm filePath;
          count = length directDependents;
          tests = length (testFiles testMapping) > 0
      in \<lparr>riskLevel = (if count > 20 \<and> \<not> tests then ''CRITICAL''
                        else if count > 10 \<or> \<not> tests then ''HIGH''
                        else if count > 5 then ''MEDIUM''
                        else ''LOW''),
          callerCount = count,
          hasTests = tests\<rparr>)"

subsection \<open>The API surface (\<^verbatim>\<open>index.ts\<close>)\<close>

record ripple =
  r_env :: env
  graphBuilder :: dependency_graph
  testMapper :: test_mapper
  initialized :: bool









subsection \<open>Notions used in the statements\<close>

text \<open>The forward-edge set and the reverse-edge set of a file.\<close>

definition forward :: "dependency_graph \<Rightarrow> string \<Rightarrow> string set" where
  "forward g a = set (getDirectDependencies g a)"

definition reverse :: "dependency_graph \<Rightarrow> string \<Rightarrow> string set" where
  "reverse g b = set (getDirectDependents g b)"

text \<open>The files at most \<open>k\<close> hops from \<open>start\<close> along the edges of \<open>adj\<close>.\<close>

fun reach_within :: "edge_map \<Rightarrow> nat \<Rightarrow> string \<Rightarrow> string list" where
  "reach_within adj 0 start = [start]"
| "reach_within adj (Suc k) start =
     (let r = reach_within adj k start
      in remdups (r @ concat (map (\<lambda>x. or_empty (adj x)) r)))"

text \<open>The body of the \<^verbatim>\<open>for\<close> loop of \<^verbatim>\<open>traverse\<close>, and what one call and one loop do to
  the pair of \<^verbatim>\<open>visited\<close> and \<^verbatim>\<open>result\<close>: both grow, the entries appended to
  \<^verbatim>\<open>result\<close> were not visited before, and every newly visited file is the current file
  or one of the appended entries.\<close>

definition visit :: "edge_map \<Rightarrow> nat \<Rightarrow> nat \<Rightarrow> string \<Rightarrow> string set \<times> string list
    \<Rightarrow> string set \<times> string list" where
  "visit adj maxDepth depth =
     (\<lambda>dep st. if dep \<notin> fst st
               then traverse adj maxDepth dep (depth + 1) (fst st, snd st @ [dep])
               else st)"



subsection \<open>Example projects\<close>

text \<open>A small POSIX reading of the \<^verbatim>\<open>path\<close> functions, enough for absolute paths and for
  specifiers starting with \<^verbatim>\<open>./\<close> or \<^verbatim>\<open>../\<close>; a file system that holds exactly the
  parsed files; a \<^verbatim>\<open>minimatch\<close> that knows the pattern \<^verbatim>\<open>**/auth/**\<close>.\<close>

definition ex_dirname :: "string \<Rightarrow> string" where
  "ex_dirname p = rev (drop 1 (dropWhile (\<lambda>c. c \<noteq> CHR ''/'') (rev p)))"

definition ex_basename :: "string \<Rightarrow> string" where
  "ex_basename p = rev (takeWhile (\<lambda>c. c \<noteq> CHR ''/'') (rev p))"

definition ex_name :: "string \<Rightarrow> string" where
  "ex_name p =
     (let b = ex_basename p
      in if CHR ''.'' \<in> set (drop 1 b)
         then rev (drop 1 (dropWhile (\<lambda>c. c \<noteq> CHR ''.'') (rev b)))
         else b)"

definition ex_join2 :: "string \<Rightarrow> string \<Rightarrow> string" where
  "ex_join2 acc seg =
     (if prefix ''/'' seg then seg
      else if prefix ''./'' seg then acc @ ''/'' @ drop 2 seg
      else if prefix ''../'' seg then ex_dirname acc @ ''/'' @ drop 3 seg
      else acc @ ''/'' @ seg)"

definition ex_resolve :: "string list \<Rightarrow> string" where
  "ex_resolve segs = foldl ex_join2 '''' segs"

definition DEFAULT_CONFIG :: ripple_config where
  "DEFAULT_CONFIG = \<lparr>
     includePaths = [''src/**/*.ts'', ''src/**/*.tsx'', ''src/**/*.js'', ''src/**/*.jsx''],
     excludePaths = [''node_modules/**'', ''dist/**'', ''build/**'', ''**/*.d.ts''],
     testPatterns = [''**/*.test.ts'', ''**/*.test.tsx'', ''**/*.spec.ts'', ''**/*.spec.tsx'',
                     ''**/__tests__/**'', ''**/tests/**''],
     riskThresholds = \<lparr>th_low = 3, th_medium = 5, th_high = 7\<rparr>,
     criticalPathPatterns = [''**/auth/**'', ''**/payment/**'', ''**/billing/**'',
                             ''**/security/**'', ''**/admin/**''],
     cacheEnabled = True,
     cachePath = ''.ripple-cache''\<rparr>"

definition ex_env :: "(string \<times> graph_node) list \<Rightarrow> env" where
  "ex_env parsed = \<lparr>
     rootDir = ''/p'',
     config = DEFAULT_CONFIG,
     fs_existsSync = (\<lambda>p. p \<in> set (map fst parsed)),
     fs_isFile = (\<lambda>p. p \<in> set (map fst parsed)),
     path_resolve = ex_resolve,
     path_dirname = ex_dirname,
     path_basename = ex_basename,
     path_join = ex_resolve,
     path_relative = (\<lambda>base p. strip_prefix (base @ ''/'') p),
     path_parse_name = ex_name,
     path_parse_dir = ex_dirname,
     minimatch = (\<lambda>p pat. pat = ''**/auth/**'' \<and> sublist ''/auth/'' (''/'' @ p)),
     glob = (\<lambda>pat ignore. if pat = ''src/**/*.ts'' then map fst parsed else []),
     parseFile = map_of parsed,
     getContextSnippet = (\<lambda>p l. '''')\<rparr>"

definition ex_file :: "string \<Rightarrow> string" where
  "ex_file n = ''/p/src/'' @ n @ ''.ts''"

definition ex_import :: "string \<Rightarrow> nat \<Rightarrow> string list \<Rightarrow> string \<Rightarrow> import_info" where
  "ex_import file lineNo names src =
     \<lparr>source = src,
      specifiers = map (\<lambda>n. \<lparr>imported = n, local_name = n, spec_isDefault = False,
                              isNamespace = False\<rparr>) names,
      imp_location = \<lparr>loc_filePath = file, loc_line = lineNo, loc_column = 1\<rparr>\<rparr>"

definition ex_symbol :: "string \<Rightarrow> nat \<Rightarrow> string \<Rightarrow> symbol" where
  "ex_symbol file lineNo n =
     \<lparr>sym_name = n, sym_kind = Function,
      sym_location = \<lparr>loc_filePath = file, loc_line = lineNo, loc_column = 1\<rparr>\<rparr>"

definition ex_export :: "string \<Rightarrow> nat \<Rightarrow> string \<Rightarrow> export_info" where
  "ex_export file lineNo n =
     \<lparr>exp_name = n, exp_kind = Function,
      exp_location = \<lparr>loc_filePath = file, loc_line = lineNo, loc_column = 1\<rparr>,
      exp_isDefault = False\<rparr>"

text \<open>A file \<open>n\<close> with one import statement \<^verbatim>\<open>import { x } from s\<close> per entry of \<open>srcs\<close>.\<close>

definition ex_node :: "string \<Rightarrow> string list \<Rightarrow> string \<times> graph_node" where
  "ex_node n srcs =
     (ex_file n,
      \<lparr>node_filePath = ex_file n, node_symbols = [],
       node_imports = map (\<lambda>(i, s). ex_import (ex_file n) (Suc i) [''x''] s) (enumerate 0 srcs),
       node_exports = [], lastModified = 0\<rparr>)"

definition no_tests :: test_mapper where
  "no_tests = \<lparr>tm_testFiles = [], coverageData = None\<rparr>"

text \<open>A chain of imports eleven files long that starts at a file importing itself and ends
  in a diamond: \<^verbatim>\<open>f\<close> imports \<^verbatim>\<open>f\<close>, \<^verbatim>\<open>n1\<close> imports \<^verbatim>\<open>f\<close>, \<^verbatim>\<open>n2\<close> imports \<^verbatim>\<open>n1\<close>,
  ..., \<^verbatim>\<open>a\<close> and \<^verbatim>\<open>b\<close> import \<^verbatim>\<open>n9\<close>, and \<^verbatim>\<open>c\<close> imports \<^verbatim>\<open>a\<close> and \<^verbatim>\<open>b\<close>.\<close>

definition deep_project :: "(string \<times> graph_node) list" where
  "deep_project =
     [ex_node ''f'' [''./f''], ex_node ''n1'' [''./f''], ex_node ''n2'' [''./n1''],
      ex_node ''n3'' [''./n2''], ex_node ''n4'' [''./n3''], ex_node ''n5'' [''./n4''],
      ex_node ''n6'' [''./n5''], ex_node ''n7'' [''./n6''], ex_node ''n8'' [''./n7''],
      ex_node ''n9'' [''./n8''], ex_node ''a'' [''./n9''], ex_node ''b'' [''./n9''],
      ex_node ''c'' [''./a'', ''./b'']]"

text \<open>Its graph: the node table and the two edge tables a build of these files yields.\<close>

definition deep_graph :: dependency_graph where
  "deep_graph =
     \<lparr>nodes = deep_project,
      edges = map_of
        [(ex_file ''f'', [ex_file ''f'']), (ex_file ''n1'', [ex_file ''f'']),
         (ex_file ''n2'', [ex_file ''n1'']), (ex_file ''n3'', [ex_file ''n2'']),
         (ex_file ''n4'', [ex_file ''n3'']), (ex_file ''n5'', [ex_file ''n4'']),
         (ex_file ''n6'', [ex_file ''n5'']), (ex_file ''n7'', [ex_file ''n6'']),
         (ex_file ''n8'', [ex_file ''n7'']), (ex_file ''n9'', [ex_file ''n8'']),
         (ex_file ''a'', [ex_file ''n9'']), (ex_file ''b'', [ex_file ''n9'']),
         (ex_file ''c'', [ex_file ''a'', ex_file ''b''])],
      reverseEdges = map_of
        [(ex_file ''f'', [ex_file ''f'', ex_file ''n1'']), (ex_file ''n1'', [ex_file ''n2'']),
         (ex_file ''n2'', [ex_file ''n3'']), (ex_file ''n3'', [ex_file ''n4'']),
         (ex_file ''n4'', [ex_file ''n5'']), (ex_file ''n5'', [ex_file ''n6'']),
         (ex_file ''n6'', [ex_file ''n7'']), (ex_file ''n7'', [ex_file ''n8'']),
         (ex_file ''n8'', [ex_file ''n9'']),
         (ex_file ''n9'', [ex_file ''a'', ex_file ''b'']),
         (ex_file ''a'', [ex_file ''c'']), (ex_file ''b'', [ex_file ''c''])]\<rparr>"

text \<open>The same shape without the chain: \<^verbatim>\<open>f\<close> imports itself, \<^verbatim>\<open>a\<close> and \<^verbatim>\<open>b\<close> import
  \<^verbatim>\<open>f\<close>, and \<^verbatim>\<open>c\<close> imports \<^verbatim>\<open>a\<close> and \<^verbatim>\<open>b\<close>; its graph is built.\<close>

definition diamond_project :: "(string \<times> graph_node) list" where
  "diamond_project =
     [ex_node ''f'' [''./f''], ex_node ''a'' [''./f''], ex_node ''b'' [''./f''],
      ex_node ''c'' [''./a'', ''./b'']]"

definition diamond_graph :: dependency_graph where
  "diamond_graph = build (ex_env diamond_project) empty_graph"

text \<open>A file \<^verbatim>\<open>hub\<close> imported by twenty-five others, and its graph.\<close>

definition fan_project :: "(string \<times> graph_node) list" where
  "fan_project =
     ex_node ''hub'' [] #
     map (\<lambda>i. ex_node (''u'' @ string_of_nat i) [''./hub'']) [1 ..< 26]"

definition fan_graph :: dependency_graph where
  "fan_graph =
     \<lparr>nodes = fan_project,
      edges = map_of (map (\<lambda>i. (ex_file (''u'' @ string_of_nat i), [ex_file ''hub''])) [1 ..< 26]),
      reverseEdges = map_of
        [(ex_file ''hub'', map (\<lambda>i. ex_file (''u'' @ string_of_nat i)) [1 ..< 26])]\<rparr>"

text \<open>The project of the repository's test suite: \<^verbatim>\<open>services/user.ts\<close> exports
  \<^verbatim>\<open>getUser\<close> and \<^verbatim>\<open>updateUser\<close> (here it also has the private function \<^verbatim>\<open>helper\<close>);
  \<^verbatim>\<open>api/users.ts\<close> imports both, \<^verbatim>\<open>api/admin.ts\<close> imports \<^verbatim>\<open>getUser\<close> only.\<close>

definition user_ts :: string where
  "user_ts = ''/p/src/services/user.ts''"

definition users_ts :: string where
  "users_ts = ''/p/src/api/users.ts''"

definition admin_ts :: string where
  "admin_ts = ''/p/src/api/admin.ts''"

definition user_project :: "(string \<times> graph_node) list" where
  "user_project =
     [(user_ts,
       \<lparr>node_filePath = user_ts,
        node_symbols = [ex_symbol user_ts 2 ''helper'', ex_symbol user_ts 8 ''getUser'',
                        ex_symbol user_ts 12 ''updateUser''],
        node_imports = [],
        node_exports = [ex_export user_ts 8 ''getUser'', ex_export user_ts 12 ''updateUser''],
        lastModified = 0\<rparr>),
      (users_ts,
       \<lparr>node_filePath = users_ts, node_symbols = [],
        node_imports = [ex_import users_ts 2 [''getUser'', ''updateUser''] ''../services/user''],
        node_exports = [], lastModified = 0\<rparr>),
      (admin_ts,
       \<lparr>node_filePath = admin_ts, node_symbols = [],
        node_imports = [ex_import admin_ts 2 [''getUser''] ''../services/user''],
        node_exports = [], lastModified = 0\<rparr>)]"

definition user_graph :: dependency_graph where
  "user_graph = build (ex_env user_project) empty_graph"


text \<open>A test mapper that knows the test file \<^verbatim>\<open>c.test.ts\<close> next to \<^verbatim>\<open>c.ts\<close>.\<close>

definition c_tests :: test_mapper where
  "c_tests = \<lparr>tm_testFiles = [''/p/src/c.test.ts''], coverageData = None\<rparr>"




subsection \<open>Adjacency symmetry\<close>

lemma forward_reverse_add:
  "forward (g\<lparr>edges := add_to (edges g) a b, reverseEdges := add_to (reverseEdges g) b a\<rparr>) x
     = (if x = a then insert b (forward g x) else forward g x)"
  "reverse (g\<lparr>edges := add_to (edges g) a b, reverseEdges := add_to (reverseEdges g) b a\<rparr>) y
     = (if y = b then insert a (reverse g y) else reverse g y)"
  by (auto simp: forward_def reverse_def getDirectDependencies_def getDirectDependents_def
        add_to_def set_add_def)

lemma add_import_edge_sym:
  assumes "\<forall>a b. b \<in> forward g a \<longleftrightarrow> a \<in> reverse g b"
  shows "b \<in> forward (add_import_edge e f i g) a \<longleftrightarrow> a \<in> reverse (add_import_edge e f i g) b"
  using assms
  by (auto simp: add_import_edge_def forward_reverse_add split: option.splits)

lemma fold_add_import_edge_sym:
  "\<forall>a b. b \<in> forward g a \<longleftrightarrow> a \<in> reverse g b \<Longrightarrow>
   b \<in> forward (fold (add_import_edge e f) is g) a
     \<longleftrightarrow> a \<in> reverse (fold (add_import_edge e f) is g) b"
proof (induction "is" arbitrary: g a b)
  case Nil
  then show ?case by simp
next
  case (Cons i "is")
  have "\<forall>a b. b \<in> forward (add_import_edge e f i g) a \<longleftrightarrow> a \<in> reverse (add_import_edge e f i g) b"
    using add_import_edge_sym [OF Cons.prems] by blast
  from Cons.IH [OF this] show ?case by simp
qed

lemma fold_nodes_sym:
  "\<forall>a b. b \<in> forward g a \<longleftrightarrow> a \<in> reverse g b \<Longrightarrow>
   b \<in> forward (fold (\<lambda>(filePath, node) g'. fold (add_import_edge e filePath) (node_imports node) g') ns g) a
     \<longleftrightarrow> a \<in> reverse (fold (\<lambda>(filePath, node) g'. fold (add_import_edge e filePath) (node_imports node) g') ns g) b"
proof (induction ns arbitrary: g a b)
  case Nil
  then show ?case by simp
next
  case (Cons n ns)
  obtain f nd where n: "n = (f, nd)" by (cases n)
  have "\<forall>a b. b \<in> forward (fold (add_import_edge e f) (node_imports nd) g) a
          \<longleftrightarrow> a \<in> reverse (fold (add_import_edge e f) (node_imports nd) g) b"
    using fold_add_import_edge_sym [OF Cons.prems] by blast
  from Cons.IH [OF this] show ?case by (simp add: n)
qed

lemma buildEdges_sym:
  "b \<in> forward (buildEdges e g) a \<longleftrightarrow> a \<in> reverse (buildEdges e g) b"
  unfolding buildEdges_def
  by (rule fold_nodes_sym)
     (simp add: forward_def reverse_def getDirectDependencies_def getDirectDependents_def)

text \<open>
  Claim C1. After a full build and after an incremental update of any graph with any batch
  of changed files, for all files \<open>A\<close> and \<open>B\<close>: \<open>B\<close> is in the forward-edge set of \<open>A\<close> if and
  only if \<open>A\<close> is in the reverse-edge set of \<open>B\<close>. Both operations end with the full edge
  recomputation \<^verbatim>\<open>buildEdges\<close>, which is where the symmetry comes from.
\<close>

theorem adjacency_symmetry:
  "(B \<in> forward (build e g) A \<longleftrightarrow> A \<in> reverse (build e g) B) \<and>
   (B \<in> forward (updateIncremental e changedFiles g) A
      \<longleftrightarrow> A \<in> reverse (updateIncremental e changedFiles g) B)"
  unfolding build_def updateIncremental_def
  using buildEdges_sym by blast


subsection \<open>Transitive traversal\<close>






text \<open>The edge tables written out for \<^verbatim>\<open>deep_project\<close> and \<^verbatim>\<open>fan_project\<close> are the
  ones a build computes.\<close>

lemma deep_graph_is_built:
  "(let g = build (ex_env deep_project) empty_graph
    in nodes g = nodes deep_graph \<and>
       map (reverseEdges g) (map fst deep_project)
         = map (reverseEdges deep_graph) (map fst deep_project) \<and>
       map (edges g) (map fst deep_project) = map (edges deep_graph) (map fst deep_project))"
  by code_simp

lemma fan_graph_is_built:
  "(let g = build (ex_env fan_project) empty_graph
    in nodes g = nodes fan_graph \<and>
       map (reverseEdges g) (map fst fan_project)
         = map (reverseEdges fan_graph) (map fst fan_project) \<and>
       map (edges g) (map fst fan_project) = map (edges fan_graph) (map fst fan_project))"
  by code_simp



lemma reach_within_mono: "set (reach_within adj k s) \<subseteq> set (reach_within adj (Suc k) s)"
  by (auto simp: Let_def)

lemma reach_within_le: "j \<le> k \<Longrightarrow> set (reach_within adj j s) \<subseteq> set (reach_within adj k s)"
proof (induction k)
  case 0
  then show ?case by simp
next
  case (Suc k)
  show ?case
  proof (cases "j = Suc k")
    case True
    then show ?thesis by simp
  next
    case False
    then have "j \<le> k" using Suc.prems by simp
    then show ?thesis using Suc.IH reach_within_mono [of adj k s] by blast
  qed
qed

lemma reach_within_step:
  "c \<in> set (reach_within adj k s) \<Longrightarrow> adj c = Some deps \<Longrightarrow> dep \<in> set deps \<Longrightarrow>
   dep \<in> set (reach_within adj (Suc k) s)"
  by (force simp: Let_def)

lemma fold_visit_within:
  assumes "\<And>dep st. dep \<in> set deps \<Longrightarrow> dep \<notin> fst st \<Longrightarrow>
             set (snd (traverse adj m dep (d + 1) (fst st, snd st @ [dep])))
               \<subseteq> set (snd st @ [dep]) \<union> B"
    and "set deps \<subseteq> B"
  shows "set (snd (fold (visit adj m d) deps st)) \<subseteq> set (snd st) \<union> B"
  using assms
proof (induction deps arbitrary: st)
  case Nil
  show ?case by simp
next
  case (Cons dep deps)
  have IH: "\<And>s. set (snd (fold (visit adj m d) deps s)) \<subseteq> set (snd s) \<union> B"
    by (rule Cons.IH, rule Cons.prems(1)) (use Cons.prems(2) in simp_all)
  have step: "set (snd (visit adj m d dep st)) \<subseteq> set (snd st) \<union> B"
  proof (cases "dep \<in> fst st")
    case True
    then show ?thesis by (simp add: visit_def)
  next
    case False
    have "set (snd (traverse adj m dep (d + 1) (fst st, snd st @ [dep])))
        \<subseteq> set (snd st @ [dep]) \<union> B"
      by (rule Cons.prems(1)) (use False in simp_all)
    then show ?thesis using False Cons.prems(2) by (auto simp: visit_def)
  qed
  show ?case using IH [of "visit adj m d dep st"] step by auto
qed

text \<open>The bound the traversal does keep: every file it returns is within \<open>maxDepth + 1\<close>
  hops of the start file.\<close>

lemma traverse_within:
  "c \<in> set (reach_within adj d s) \<Longrightarrow>
   set (snd (traverse adj m c d st)) \<subseteq> set (snd st) \<union> set (reach_within adj (Suc m) s)"
proof (induction adj m c d st rule: traverse.induct)
  case (1 adj m c d V R)
  show ?case
  proof (cases "d > m \<or> c \<in> V")
    case True
    then show ?thesis by (auto simp: traverse.simps)
  next
    case False
    show ?thesis
    proof (cases "adj c")
      case None
      then show ?thesis using False by (auto simp: traverse.simps)
    next
      case (Some deps)
      have next_level: "\<And>dep. dep \<in> set deps \<Longrightarrow> dep \<in> set (reach_within adj (d + 1) s)"
        using reach_within_step [OF "1.prems" Some] by simp
      have "d + 1 \<le> Suc m" using False by simp
      then have up: "set (reach_within adj (d + 1) s) \<subseteq> set (reach_within adj (Suc m) s)"
        by (rule reach_within_le)
      have "set (snd (fold (visit adj m d) deps (insert c V, R)))
          \<subseteq> set (snd (insert c V, R)) \<union> set (reach_within adj (Suc m) s)"
      proof (rule fold_visit_within)
        fix dep and st :: "string set \<times> string list"
        assume "dep \<in> set deps" and "dep \<notin> fst st"
        then show "set (snd (traverse adj m dep (d + 1) (fst st, snd st @ [dep])))
            \<subseteq> set (snd st @ [dep]) \<union> set (reach_within adj (Suc m) s)"
          using "1.IH" [OF False Some, of dep st] next_level by simp
      next
        show "set deps \<subseteq> set (reach_within adj (Suc m) s)" using next_level up by blast
      qed
      moreover have "traverse adj m c d (V, R) = fold (visit adj m d) deps (insert c V, R)"
        using False Some by (simp add: traverse.simps visit_def)
      ultimately show ?thesis by simp
    qed
  qed
qed

lemma transitive_within_bound_plus_one:
  "set (getTransitiveDependents g filePath maxDepth)
     \<subseteq> set (reach_within (reverseEdges g) (Suc maxDepth) filePath)"
  using traverse_within [of filePath "reverseEdges g" 0 filePath maxDepth "({}, [])"]
  by (simp add: getTransitiveDependents_def)

text \<open>
  Claim C7 at \<^verbatim>\<open>deep_project\<close>: with the default bound 10, \<^verbatim>\<open>c.ts\<close> is in the result of
  \<^verbatim>\<open>getTransitiveDependents\<close> for \<^verbatim>\<open>f.ts\<close> although it is not within 10 hops of
  \<^verbatim>\<open>f.ts\<close> along reverse edges (it is 11 hops away). Likewise with bound 0 the result
  is the list of direct dependents, one hop away.
\<close>

theorem hop_bound_exceeded:
  "getTransitiveDependents deep_graph (ex_file ''f'') 10
     = map ex_file [''n1'', ''n2'', ''n3'', ''n4'', ''n5'', ''n6'', ''n7'', ''n8'', ''n9'',
                    ''a'', ''c'', ''b'', ''c''] \<and>
   ex_file ''c'' \<notin> set (reach_within (reverseEdges deep_graph) 10 (ex_file ''f'')) \<and>
   ex_file ''c'' \<in> set (reach_within (reverseEdges deep_graph) 11 (ex_file ''f'')) \<and>
   getTransitiveDependents deep_graph (ex_file ''n9'') 0 = [ex_file ''a'', ex_file ''b''] \<and>
   reach_within (reverseEdges deep_graph) 0 (ex_file ''n9'') = [ex_file ''n9'']"
  by code_simp

subsection \<open>Coverage percentages\<close>

lemma percentage_of_eq:
  "percentage_of c t = Some (if t > 0 then real c / real t * 100 else 0)"
  by (simp add: percentage_of_def js_div_def)

lemma pct_bounds: "0 \<le> q \<Longrightarrow> q \<le> 1 \<Longrightarrow> 0 \<le> q * 100 \<and> q * 100 \<le> (100::real)"
  by simp

lemma filter_ratio_bounds:
  "0 \<le> (if length xs > 0 then real (length (filter P xs)) / real (length xs) * 100 else 0) \<and>
   (if length xs > 0 then real (length (filter P xs)) / real (length xs) * 100 else 0) \<le> 100"
proof (cases "length xs > 0")
  case True
  have "real (length (filter P xs)) \<le> real (length xs)" by simp
  then have "real (length (filter P xs)) / real (length xs) \<le> 1"
    using True by (simp add: divide_le_eq_1)
  moreover have "0 \<le> real (length (filter P xs)) / real (length xs)" by simp
  ultimately have "0 \<le> real (length (filter P xs)) / real (length xs) * 100 \<and>
      real (length (filter P xs)) / real (length xs) * 100 \<le> 100"
    by (intro pct_bounds)
  then show ?thesis using True by (simp only: if_True)
next
  case False
  then show ?thesis by simp
qed

text \<open>
  Claim C9. For every coverage record, \<^verbatim>\<open>calculateCoverageInfo\<close> yields a result whose
  percentages are numbers: for lines and for branches the percentage is
  covered / total * 100 when total is positive and 0 when total is 0, where total counts the
  entries and covered the entries with a positive hit count; it lies between 0 and 100.
\<close>

theorem coverage_percentage_defined:
  "\<exists>ci. calculateCoverageInfo d = Some ci \<and>
     m_total (ci_lines ci) = length (raw_lines d) \<and>
     m_covered (ci_lines ci) = length (filter (\<lambda>v. v > 0) (map snd (raw_lines d))) \<and>
     m_percentage (ci_lines ci) =
       (if m_total (ci_lines ci) > 0
        then real (m_covered (ci_lines ci)) / real (m_total (ci_lines ci)) * 100 else 0) \<and>
     m_total (ci_branches ci) = length (raw_branches d) \<and>
     m_covered (ci_branches ci) = length (filter (\<lambda>v. v > 0) (map snd (raw_branches d))) \<and>
     m_percentage (ci_branches ci) =
       (if m_total (ci_branches ci) > 0
        then real (m_covered (ci_branches ci)) / real (m_total (ci_branches ci)) * 100 else 0) \<and>
     0 \<le> m_percentage (ci_lines ci) \<and> m_percentage (ci_lines ci) \<le> 100 \<and>
     0 \<le> m_percentage (ci_branches ci) \<and> m_percentage (ci_branches ci) \<le> 100"
proof -
  let ?l = "map snd (raw_lines d)" and ?b = "map snd (raw_branches d)"
  have l: "0 \<le> (if length ?l > 0 then real (length (filter (\<lambda>v. v > 0) ?l)) / real (length ?l) * 100 else 0)
         \<and> (if length ?l > 0 then real (length (filter (\<lambda>v. v > 0) ?l)) / real (length ?l) * 100 else 0) \<le> 100"
    by (rule filter_ratio_bounds)
  have b: "0 \<le> (if length ?b > 0 then real (length (filter (\<lambda>v. v > 0) ?b)) / real (length ?b) * 100 else 0)
         \<and> (if length ?b > 0 then real (length (filter (\<lambda>v. v > 0) ?b)) / real (length ?b) * 100 else 0) \<le> 100"
    by (rule filter_ratio_bounds)
  show ?thesis
    using l b by (simp add: calculateCoverageInfo_def percentage_of_eq Let_def)
qed

subsection \<open>Quick risk check\<close>

text \<open>
  Claim C5. \<^verbatim>\<open>quickRiskCheck\<close> reports the number of direct dependents and whether the
  file has any test file, and its level follows the rule table in order: more than 20
  dependents and no tests is CRITICAL; otherwise more than 10 dependents or no tests is HIGH;
  otherwise more than 5 dependents is MEDIUM; otherwise LOW. So 25 dependents without tests
  give CRITICAL and 0 dependents with tests give LOW.
\<close>

theorem quick_risk_rule_table:
  "callerCount (quickRiskCheck e g tm f) = length (getDirectDependents g f) \<and>
   hasTests (quickRiskCheck e g tm f) = (testFiles (getTestsForFile e g tm f) \<noteq> []) \<and>
   riskLevel (quickRiskCheck e g tm f) =
     (if callerCount (quickRiskCheck e g tm f) > 20 \<and> \<not> hasTests (quickRiskCheck e g tm f)
        then ''CRITICAL''
      else if callerCount (quickRiskCheck e g tm f) > 10 \<or> \<not> hasTests (quickRiskCheck e g tm f)
        then ''HIGH''
      else if callerCount (quickRiskCheck e g tm f) > 5 then ''MEDIUM''
      else ''LOW'') \<and>
   (callerCount (quickRiskCheck e g tm f) = 25 \<and> \<not> hasTests (quickRiskCheck e g tm f)
      \<longrightarrow> riskLevel (quickRiskCheck e g tm f) = ''CRITICAL'') \<and>
   (callerCount (quickRiskCheck e g tm f) = 0 \<and> hasTests (quickRiskCheck e g tm f)
      \<longrightarrow> riskLevel (quickRiskCheck e g tm f) = ''LOW'')"
  by (simp add: quickRiskCheck_def Let_def)

theorem quick_risk_rule_table_witness:
  "callerCount (quickRiskCheck (ex_env fan_project) fan_graph no_tests (ex_file ''hub'')) = 25 \<and>
   \<not> hasTests (quickRiskCheck (ex_env fan_project) fan_graph no_tests (ex_file ''hub'')) \<and>
   riskLevel (quickRiskCheck (ex_env fan_project) fan_graph no_tests (ex_file ''hub''))
     = ''CRITICAL'' \<and>
   callerCount (quickRiskCheck (ex_env diamond_project) diamond_graph c_tests (ex_file ''c'')) = 0 \<and>
   hasTests (quickRiskCheck (ex_env diamond_project) diamond_graph c_tests (ex_file ''c'')) \<and>
   riskLevel (quickRiskCheck (ex_env diamond_project) diamond_graph c_tests (ex_file ''c'')) = ''LOW''"
proof -
  have h1: "callerCount (quickRiskCheck (ex_env fan_project) fan_graph no_tests (ex_file ''hub'')) = 25
      \<and> \<not> hasTests (quickRiskCheck (ex_env fan_project) fan_graph no_tests (ex_file ''hub''))"
    by code_simp
  have h2: "callerCount (quickRiskCheck (ex_env diamond_project) diamond_graph c_tests (ex_file ''c'')) = 0
      \<and> hasTests (quickRiskCheck (ex_env diamond_project) diamond_graph c_tests (ex_file ''c''))"
    by code_simp
  show ?thesis
    using h1 h2
      quick_risk_rule_table [of "ex_env fan_project" fan_graph no_tests "ex_file ''hub''"]
      quick_risk_rule_table [of "ex_env diamond_project" diamond_graph c_tests "ex_file ''c''"]
    by blast
qed

subsection \<open>NotFound\<close>




subsection \<open>Private symbols\<close>

lemma find_list_ex: "list_ex P xs \<Longrightarrow> \<exists>x. find P xs = Some x"
  by (induction xs) auto

text \<open>
  Claim C6. When the named symbol is in the symbol list of the target file's node and no
  export of the node has that name, \<^verbatim>\<open>analyzeSymbolImpact\<close> returns an analysis whose
  direct and transitive caller lists are both empty, whatever the graph's edges are.
\<close>

theorem private_symbol_no_callers:
  assumes "getNode g filePath = Some node"
    and "list_ex (\<lambda>s. sym_name s = symbolName) (node_symbols node)"
    and "\<not> list_ex (\<lambda>ex. exp_name ex = symbolName) (node_exports node)"
  shows "\<exists>r. analyzeSymbolImpact e g tm symbolName filePath options = Inr r \<and>
             directCallers r = [] \<and> transitiveCallers r = []"
proof -
  from find_list_ex [OF assms(2)] obtain s
    where s: "find (\<lambda>s. sym_name s = symbolName) (node_symbols node) = Some s" by blast
  show ?thesis
    using assms(1,3) s
    by (simp add: analyzeSymbolImpact_def impactResult_def symbolRiskInput_def Let_def)
qed

theorem private_symbol_no_callers_witness:
  "getDirectDependents user_graph user_ts = [users_ts, admin_ts] \<and>
   (\<exists>r. analyzeSymbolImpact (ex_env user_project) user_graph no_tests ''helper'' user_ts no_options
           = Inr r \<and> directCallers r = [] \<and> transitiveCallers r = [])"
proof -
  have d: "getDirectDependents user_graph user_ts = [users_ts, admin_ts]" by code_simp
  have n: "getNode user_graph user_ts = Some (snd (hd user_project))" by code_simp
  have s: "list_ex (\<lambda>s. sym_name s = ''helper'') (node_symbols (snd (hd user_project)))"
    by code_simp
  have x: "\<not> list_ex (\<lambda>ex. exp_name ex = ''helper'') (node_exports (snd (hd user_project)))"
    by code_simp
  show ?thesis
    using d private_symbol_no_callers [OF n s x, of "ex_env user_project" no_tests no_options]
    by simp
qed

subsection \<open>Caller materialisation\<close>

text \<open>
  Claim C8, as stated, fails: the only import of \<^verbatim>\<open>api/admin.ts\<close> names \<^verbatim>\<open>getUser\<close>,
  neither \<^verbatim>\<open>updateUser\<close> nor a wildcard, and \<^verbatim>\<open>pathsToCallers\<close> called with the symbol
  name \<^verbatim>\<open>updateUser\<close> still produces a Caller for it. The analysis of \<^verbatim>\<open>updateUser\<close>
  reports that import among the transitive callers.
\<close>

theorem callers_counterexample:
  "map (map imported \<circ> specifiers) (node_imports (the (getNode user_graph admin_ts)))
     = [[''getUser'']] \<and>
   map c_location
     (pathsToCallers (ex_env user_project) user_graph no_tests [admin_ts] user_ts
        (Some ''updateUser''))
     = [\<lparr>loc_filePath = admin_ts, loc_line = 2, loc_column = 1\<rparr>] \<and>
   map_sum id (map c_location \<circ> transitiveCallers)
     (analyzeSymbolImpact (ex_env user_project) user_graph no_tests ''updateUser'' user_ts
        no_options)
     = Inr [\<lparr>loc_filePath = admin_ts, loc_line = 2, loc_column = 1\<rparr>]"
  by code_simp

lemma map_location_importCaller:
  "map c_location (map (importCaller e tm p f s) is) = map imp_location is"
  by (induction "is") (simp_all add: importCaller_def)

lemma c_location_importCaller: "c_location (importCaller e tm p f s i) = imp_location i"
  by (simp add: importCaller_def)

lemma importCaller_Some:
  "importCaller e tm p f (Some s) i
     = (importCaller e tm p f None i)\<lparr>c_symbol :=
          (c_symbol (importCaller e tm p f None i))\<lparr>sym_name :=
             (if s \<noteq> [] then s else path_basename e f)\<rparr>\<rparr>"
  by (simp add: importCaller_def)

text \<open>
  Claim C8, amended. \<^verbatim>\<open>pathsToCallers\<close> produces one Caller, carrying the import's
  location, for every import statement of every candidate file with a node that matches
  the target file by one of the three specifier heuristics, whether or not the import names
  the symbol or is a wildcard import; a supplied symbol name only becomes the name of the
  Caller's symbol.
\<close>

theorem callers_ignore_specifiers:
  "map c_location (pathsToCallers e g tm paths targetFile symbolName)
     = concat (map (\<lambda>depPath.
         case getNode g depPath of
           None \<Rightarrow> []
         | Some node \<Rightarrow>
             map imp_location (filter (matchesSourceFile e targetFile) (node_imports node)))
         paths) \<and>
   pathsToCallers e g tm paths targetFile (Some s)
     = map (\<lambda>c. c\<lparr>c_symbol := (c_symbol c)\<lparr>sym_name :=
                      (if s \<noteq> [] then s else path_basename e targetFile)\<rparr>\<rparr>)
         (pathsToCallers e g tm paths targetFile None)"
proof (induction paths)
  case Nil
  show ?case by (simp add: pathsToCallers_def)
next
  case (Cons p ps)
  have 1: "map c_location (pathsToCallers e g tm (p # ps) targetFile symbolName)
      = (case getNode g p of
           None \<Rightarrow> []
         | Some node \<Rightarrow>
             map imp_location (filter (matchesSourceFile e targetFile) (node_imports node)))
        @ map c_location (pathsToCallers e g tm ps targetFile symbolName)"
    by (simp add: pathsToCallers_def c_location_importCaller split: option.splits)
  have 2: "pathsToCallers e g tm (p # ps) targetFile (Some s)
      = map (\<lambda>c. c\<lparr>c_symbol := (c_symbol c)\<lparr>sym_name :=
                      (if s \<noteq> [] then s else path_basename e targetFile)\<rparr>\<rparr>)
          (case getNode g p of
             None \<Rightarrow> []
           | Some node \<Rightarrow>
               map (importCaller e tm p targetFile None)
                 (filter (matchesSourceFile e targetFile) (node_imports node)))
        @ pathsToCallers e g tm ps targetFile (Some s)"
    by (simp add: pathsToCallers_def importCaller_Some split: option.splits)
  show ?case
    using Cons.IH 1 2 by (simp add: pathsToCallers_def)
qed

subsection \<open>The target's own test mapping\<close>

lemma append_neq_by_last: "ys \<noteq> [] \<Longrightarrow> last ys \<noteq> last zs \<Longrightarrow> xs @ ys \<noteq> zs"
  by auto

lemma description_no_tests_data:
  "xs @ '' test file(s) found (no coverage data)'' \<noteq> ''No test mapping found''"
  by (rule append_neq_by_last) simp_all

lemma description_coverage:
  "xs @ ''% line coverage, '' @ ys @ ''% branch coverage'' \<noteq> ''No test mapping found''"
proof -
  have "(xs @ ''% line coverage, '' @ ys) @ ''% branch coverage'' \<noteq> ''No test mapping found''"
    by (rule append_neq_by_last) simp_all
  then show ?thesis by simp
qed

lemma coverage_description_found:
  assumes "find (\<lambda>t. sourceFile t = in_filePath input) (in_affectedTests input) = Some t"
  shows "rf_description (calculateTestCoverageFactor ws input) \<noteq> ''No test mapping found''"
proof (cases "testFiles t = []")
  case True
  then show ?thesis using assms by (simp add: calculateTestCoverageFactor_def)
next
  case False
  show ?thesis
  proof (cases "coverage t")
    case None
    then show ?thesis
      using assms False
      by (simp add: calculateTestCoverageFactor_def description_no_tests_data)
  next
    case (Some cov)
    then show ?thesis
      using assms False
      by (simp add: calculateTestCoverageFactor_def Let_def description_coverage)
  qed
qed

lemma fileRiskInput_tests:
  "in_filePath (fileRiskInput e g tm filePath options) = filePath \<and>
   (\<exists>rest. in_affectedTests (fileRiskInput e g tm filePath options)
             = getTestsForFile e g tm filePath # rest)"
  by (simp add: fileRiskInput_def Let_def)

lemma symbolRiskInput_tests:
  "in_filePath (symbolRiskInput e g tm node symbolName filePath options) = filePath \<and>
   in_affectedTests (symbolRiskInput e g tm node symbolName filePath options)
     = [getTestsForFile e g tm filePath]"
  by (simp add: symbolRiskInput_def Let_def)

lemma sourceFile_getTestsForFile: "sourceFile (getTestsForFile e g tm filePath) = filePath"
  by (simp add: getTestsForFile_def)

lemma fileRiskInput_description:
  "rf_description (calculateTestCoverageFactor ws (fileRiskInput e g tm filePath options))
     \<noteq> ''No test mapping found''"
proof -
  obtain rest where "in_affectedTests (fileRiskInput e g tm filePath options)
      = getTestsForFile e g tm filePath # rest"
    using fileRiskInput_tests by blast
  then have "find (\<lambda>t. sourceFile t = in_filePath (fileRiskInput e g tm filePath options))
      (in_affectedTests (fileRiskInput e g tm filePath options))
      = Some (getTestsForFile e g tm filePath)"
    using fileRiskInput_tests [of e g tm filePath options]
    by (simp add: sourceFile_getTestsForFile)
  then show ?thesis by (rule coverage_description_found)
qed

lemma symbolRiskInput_description:
  "rf_description
     (calculateTestCoverageFactor ws (symbolRiskInput e g tm node symbolName filePath options))
     \<noteq> ''No test mapping found''"
proof -
  have "find (\<lambda>t. sourceFile t
          = in_filePath (symbolRiskInput e g tm node symbolName filePath options))
      (in_affectedTests (symbolRiskInput e g tm node symbolName filePath options))
      = Some (getTestsForFile e g tm filePath)"
    by (simp add: symbolRiskInput_tests sourceFile_getTestsForFile)
  then show ?thesis by (rule coverage_description_found)
qed

lemma impactResult_fields:
  "affectedTests (impactResult e tgt input) = in_affectedTests input \<and>
   riskScore (impactResult e tgt input) = calculateRisk e DEFAULT_WEIGHTS input"
  by (simp add: impactResult_def Let_def)

lemma calculateRisk_fourth_factor:
  "rs_factors (calculateRisk e ws input) ! 3 = calculateTestCoverageFactor ws input"
  by (simp add: calculateRisk_def riskFactors_def)

text \<open>
  Claim C10. The risk input built by \<^verbatim>\<open>analyzeFileImpact\<close> and the one built by
  \<^verbatim>\<open>analyzeSymbolImpact\<close> have the analysed path as their file path and the target file's
  own test mapping, whose source file is that path, as the first element of the affected
  tests. So the Test Coverage factor computed from them never takes the branch
  \<^verbatim>\<open>No test mapping found\<close>, and neither does the fourth factor of the score of any
  analysis the two entry points return.
\<close>

theorem target_mapping_first:
  "in_filePath (fileRiskInput e g tm filePath options) = filePath \<and>
   hd (in_affectedTests (fileRiskInput e g tm filePath options))
     = getTestsForFile e g tm filePath \<and>
   in_filePath (symbolRiskInput e g tm node symbolName filePath options) = filePath \<and>
   hd (in_affectedTests (symbolRiskInput e g tm node symbolName filePath options))
     = getTestsForFile e g tm filePath \<and>
   sourceFile (getTestsForFile e g tm filePath) = filePath \<and>
   rf_description (calculateTestCoverageFactor ws (fileRiskInput e g tm filePath options))
     \<noteq> ''No test mapping found'' \<and>
   rf_description
     (calculateTestCoverageFactor ws (symbolRiskInput e g tm node symbolName filePath options))
     \<noteq> ''No test mapping found'' \<and>
   (analyzeFileImpact e g tm filePath options = Inr r \<longrightarrow>
      hd (affectedTests r) = getTestsForFile e g tm filePath \<and>
      rf_name (rs_factors (riskScore r) ! 3) = ''Test Coverage'' \<and>
      rf_description (rs_factors (riskScore r) ! 3) \<noteq> ''No test mapping found'') \<and>
   (analyzeSymbolImpact e g tm symbolName filePath options = Inr r' \<longrightarrow>
      hd (affectedTests r') = getTestsForFile e g tm filePath \<and>
      rf_name (rs_factors (riskScore r') ! 3) = ''Test Coverage'' \<and>
      rf_description (rs_factors (riskScore r') ! 3) \<noteq> ''No test mapping found'')"
proof -
  have name: "\<And>input. rf_name (calculateTestCoverageFactor DEFAULT_WEIGHTS input) = ''Test Coverage''"
    by (simp add: calculateTestCoverageFactor_def Let_def split: option.splits)
  have f: "hd (in_affectedTests (fileRiskInput e g tm filePath options))
      = getTestsForFile e g tm filePath"
    using fileRiskInput_tests [of e g tm filePath options] by auto
  have a: "analyzeFileImpact e g tm filePath options = Inr r \<longrightarrow>
      hd (affectedTests r) = getTestsForFile e g tm filePath \<and>
      rf_name (rs_factors (riskScore r) ! 3) = ''Test Coverage'' \<and>
      rf_description (rs_factors (riskScore r) ! 3) \<noteq> ''No test mapping found''"
    using f fileRiskInput_description [of DEFAULT_WEIGHTS e g tm filePath options] name
    by (auto simp: analyzeFileImpact_def impactResult_fields calculateRisk_fourth_factor
          split: option.splits)
  have b: "analyzeSymbolImpact e g tm symbolName filePath options = Inr r' \<longrightarrow>
      hd (affectedTests r') = getTestsForFile e g tm filePath \<and>
      rf_name (rs_factors (riskScore r') ! 3) = ''Test Coverage'' \<and>
      rf_description (rs_factors (riskScore r') ! 3) \<noteq> ''No test mapping found''"
    using symbolRiskInput_description [of DEFAULT_WEIGHTS e g tm _ symbolName filePath options] name
    by (auto simp: analyzeSymbolImpact_def impactResult_fields calculateRisk_fourth_factor
          symbolRiskInput_tests split: option.splits)
  show ?thesis
    using f a b fileRiskInput_description [of ws e g tm filePath options]
      symbolRiskInput_description [of ws e g tm node symbolName filePath options]
    by (simp add: fileRiskInput_tests symbolRiskInput_tests sourceFile_getTestsForFile)
qed

theorem target_mapping_first_witness:
  "(\<exists>r. analyzeFileImpact (ex_env user_project) user_graph no_tests user_ts no_options = Inr r \<and>
        rf_description (rs_factors (riskScore r) ! 3) \<noteq> ''No test mapping found'') \<and>
   (\<exists>r. analyzeSymbolImpact (ex_env user_project) user_graph no_tests ''getUser'' user_ts
           no_options = Inr r \<and>
        rf_description (rs_factors (riskScore r) ! 3) \<noteq> ''No test mapping found'')"
proof -
  have n: "getNode user_graph user_ts = Some (snd (hd user_project))" by code_simp
  have s: "find (\<lambda>s. sym_name s = ''getUser'') (node_symbols (snd (hd user_project)))
      = Some (ex_symbol user_ts 8 ''getUser'')"
    by code_simp
  obtain r where r: "analyzeFileImpact (ex_env user_project) user_graph no_tests user_ts
      no_options = Inr r"
    using n by (simp add: analyzeFileImpact_def)
  obtain r' where r': "analyzeSymbolImpact (ex_env user_project) user_graph no_tests
      ''getUser'' user_ts no_options = Inr r'"
    using n s by (simp add: analyzeSymbolImpact_def)
  show ?thesis
    using r r'
      target_mapping_first [of "ex_env user_project" user_graph no_tests user_ts no_options
        "snd (hd user_project)" "''getUser''" DEFAULT_WEIGHTS r r']
    by simp
qed

subsection \<open>Risk score\<close>












end
